theory Spec2Isabelle
  imports Main
begin

section \<open>Constants of script.js\<close>

definition MS_PER_HOUR :: nat where
  "MS_PER_HOUR = 3600000"

definition MS_PER_MINUTE :: nat where
  "MS_PER_MINUTE = 60000"

definition MS_PER_SECOND :: nat where
  "MS_PER_SECOND = 1000"

definition MAX_COUNTDOWN_MS :: nat where
  "MAX_COUNTDOWN_MS = 24 * MS_PER_HOUR - 1"

section \<open>The host: interval timers, the display, the button\<close>

text \<open>
  Both timing classes share the same shape: a handle returned by \<^verbatim>\<open>setInterval\<close>, the flag
  \<^verbatim>\<open>isRunning\<close>, a button whose text they rewrite and a \<^verbatim>\<open>DisplayManager\<close> they call.
  The host side is made explicit: \<open>intervals\<close> is the list of interval handles that are
  registered with the event loop and not yet cleared, \<open>next_handle\<close> is the next handle the
  host gives out, and \<open>display\<close> is the log of every value passed to
  \<^verbatim>\<open>displayManager.update\<close>, oldest first. \<^verbatim>\<open>Date.now()\<close> is an argument of every operation
  that reads it.
\<close>

datatype button_label = Start_label | Pause_label | Continue_label

record engine =
  timer :: "nat option"
  isRunning :: bool
  label :: button_label
  intervals :: "nat list"
  next_handle :: nat
  display :: "int list"

definition setInterval :: "'a engine_scheme \<Rightarrow> 'a engine_scheme" where
  "setInterval s =
     s\<lparr>timer := Some (next_handle s),
       intervals := intervals s @ [next_handle s],
       next_handle := Suc (next_handle s)\<rparr>"

definition clearInterval :: "'a engine_scheme \<Rightarrow> 'a engine_scheme" where
  "clearInterval s =
     (case timer s of
        None \<Rightarrow> s
      | Some h \<Rightarrow> s\<lparr>intervals := removeAll h (intervals s)\<rparr>)"

definition update :: "int \<Rightarrow> 'a engine_scheme \<Rightarrow> 'a engine_scheme" where
  "update ms s = s\<lparr>display := display s @ [ms]\<rparr>"

text \<open>One period of the host's timer: every registered interval fires its callback once,
  unless an earlier callback of the same round has cleared it.\<close>

definition fire_all ::
  "('a engine_scheme \<Rightarrow> 'a engine_scheme) \<Rightarrow> 'a engine_scheme \<Rightarrow> 'a engine_scheme" where
  "fire_all callback s =
     foldl (\<lambda>s' h. if h \<in> set (intervals s') then callback s' else s') s (intervals s)"

section \<open>StopwatchLogic\<close>

record stopwatch = engine +
  elapsedTime :: int
  startTime :: int

text \<open>The constructor; the button's first text comes from the page and is a parameter.\<close>

definition sw_init :: "button_label \<Rightarrow> stopwatch" where
  "sw_init lbl =
     \<lparr>timer = None, isRunning = False, label = lbl, intervals = [], next_handle = 0,
      display = [], elapsedTime = 0, startTime = 0\<rparr>"

definition sw_callback :: "int \<Rightarrow> stopwatch \<Rightarrow> stopwatch" where
  "sw_callback now s = update (now - startTime s) (s\<lparr>elapsedTime := now - startTime s\<rparr>)"

definition sw_tick :: "int \<Rightarrow> stopwatch \<Rightarrow> stopwatch" where
  "sw_tick now s = fire_all (sw_callback now) s"

definition sw_start :: "int \<Rightarrow> stopwatch \<Rightarrow> stopwatch" where
  "sw_start now s =
     (if isRunning s then s
      else setInterval
             (s\<lparr>isRunning := True, startTime := now - elapsedTime s, label := Pause_label\<rparr>))"

definition sw_pause :: "stopwatch \<Rightarrow> stopwatch" where
  "sw_pause s =
     (if \<not> isRunning s then s
      else (clearInterval (s\<lparr>isRunning := False\<rparr>))\<lparr>label := Start_label\<rparr>)"

definition sw_clear :: "stopwatch \<Rightarrow> stopwatch" where
  "sw_clear s = (update 0 ((sw_pause s)\<lparr>elapsedTime := 0\<rparr>))\<lparr>label := Start_label\<rparr>"

definition sw_reset :: "stopwatch \<Rightarrow> stopwatch" where
  "sw_reset s = sw_clear s"

definition sw_toggleStartPause :: "int \<Rightarrow> stopwatch \<Rightarrow> stopwatch" where
  "sw_toggleStartPause now s = (if isRunning s then sw_pause s else sw_start now s)"

text \<open>A call of the stopwatch's interface, or one timer period, at a clock reading.\<close>

datatype sw_event =
  SwStart int | SwPause int | SwClear int | SwReset int | SwToggle int | SwTick int

fun sw_time :: "sw_event \<Rightarrow> int" where
  "sw_time (SwStart t) = t"
| "sw_time (SwPause t) = t"
| "sw_time (SwClear t) = t"
| "sw_time (SwReset t) = t"
| "sw_time (SwToggle t) = t"
| "sw_time (SwTick t) = t"

fun sw_step :: "stopwatch \<Rightarrow> sw_event \<Rightarrow> stopwatch" where
  "sw_step s (SwStart t) = sw_start t s"
| "sw_step s (SwPause t) = sw_pause s"
| "sw_step s (SwClear t) = sw_clear s"
| "sw_step s (SwReset t) = sw_reset s"
| "sw_step s (SwToggle t) = sw_toggleStartPause t s"
| "sw_step s (SwTick t) = sw_tick t s"

definition sw_run :: "sw_event list \<Rightarrow> stopwatch \<Rightarrow> stopwatch" where
  "sw_run evs s = foldl sw_step s evs"

text \<open>The clock never goes back along a trace.\<close>

fun monotone_clock :: "int \<Rightarrow> sw_event list \<Rightarrow> bool" where
  "monotone_clock t [] = True"
| "monotone_clock t (e # es) = (t \<le> sw_time e \<and> monotone_clock (sw_time e) es)"

section \<open>CountdownLogic\<close>

record countdown = engine +
  initialTimeMs :: int
  remainingTime :: int
  endTime :: int

definition cd_init :: "button_label \<Rightarrow> countdown" where
  "cd_init lbl =
     \<lparr>timer = None, isRunning = False, label = lbl, intervals = [], next_handle = 0,
      display = [], initialTimeMs = 0, remainingTime = 0, endTime = 0\<rparr>"

definition updateButtonState :: "button_label \<Rightarrow> countdown \<Rightarrow> countdown" where
  "updateButtonState b s = s\<lparr>label := b\<rparr>"

text \<open>\<open>setInitialTime\<close> has no check on its argument and no \<^verbatim>\<open>throw\<close>; its body sits in a
  \<^verbatim>\<open>try\<close>/\<^verbatim>\<open>catch\<close> that logs, so nothing reaches the caller but the new state.\<close>

definition setInitialTime :: "int \<Rightarrow> countdown \<Rightarrow> countdown" where
  "setInitialTime ms s =
     updateButtonState Start_label (update ms (s\<lparr>initialTimeMs := ms, remainingTime := ms\<rparr>))"

text \<open>\<open>pause()\<close> takes no clock reading: the source does not call \<^verbatim>\<open>Date.now()\<close> in it.\<close>

definition cd_pause :: "countdown \<Rightarrow> countdown" where
  "cd_pause s =
     (if \<not> isRunning s then s
      else updateButtonState Continue_label (clearInterval (s\<lparr>isRunning := False\<rparr>)))"

definition cd_callback :: "int \<Rightarrow> countdown \<Rightarrow> countdown" where
  "cd_callback now s =
     (let s1 = s\<lparr>remainingTime := endTime s - now\<rparr>
      in if remainingTime s1 \<le> 0
         then updateButtonState Start_label (update 0 (cd_pause (s1\<lparr>remainingTime := 0\<rparr>)))
         else update (remainingTime s1) s1)"

definition cd_tick :: "int \<Rightarrow> countdown \<Rightarrow> countdown" where
  "cd_tick now s = fire_all (cd_callback now) s"

definition cd_start :: "int \<Rightarrow> countdown \<Rightarrow> countdown" where
  "cd_start now s =
     (if isRunning s \<or> remainingTime s \<le> 0 then s
      else setInterval
             (updateButtonState Pause_label
                (s\<lparr>isRunning := True, endTime := now + remainingTime s\<rparr>)))"

definition continueCountdown :: "int \<Rightarrow> countdown \<Rightarrow> countdown" where
  "continueCountdown now s =
     (if isRunning s \<or> remainingTime s \<le> 0 then s else cd_start now s)"

definition cd_clear :: "countdown \<Rightarrow> countdown" where
  "cd_clear s =
     (let s1 = cd_pause s;
          s2 = s1\<lparr>remainingTime := initialTimeMs s1\<rparr>
      in updateButtonState Start_label (update (remainingTime s2) s2))"

definition cd_reset :: "countdown \<Rightarrow> countdown" where
  "cd_reset s =
     updateButtonState Start_label
       (update 0 ((cd_pause s)\<lparr>initialTimeMs := 0, remainingTime := 0\<rparr>))"

definition toggleStartPauseContinue :: "int \<Rightarrow> countdown \<Rightarrow> countdown" where
  "toggleStartPauseContinue now s =
     (if isRunning s then cd_pause s
      else if label s = Start_label then cd_start now s
      else continueCountdown now s)"

datatype cd_event =
  CdSetInitial int | CdStart int | CdPause | CdContinue int | CdClear | CdReset
  | CdToggle int | CdTick int

fun cd_step :: "countdown \<Rightarrow> cd_event \<Rightarrow> countdown" where
  "cd_step s (CdSetInitial ms) = setInitialTime ms s"
| "cd_step s (CdStart t) = cd_start t s"
| "cd_step s CdPause = cd_pause s"
| "cd_step s (CdContinue t) = continueCountdown t s"
| "cd_step s CdClear = cd_clear s"
| "cd_step s CdReset = cd_reset s"
| "cd_step s (CdToggle t) = toggleStartPauseContinue t s"
| "cd_step s (CdTick t) = cd_tick t s"

definition cd_run :: "cd_event list \<Rightarrow> countdown \<Rightarrow> countdown" where
  "cd_run evs s = foldl cd_step s evs"

text \<open>Every duration handed to \<open>setInitialTime\<close> along a trace is non-negative.\<close>

fun durations_nonneg :: "cd_event list \<Rightarrow> bool" where
  "durations_nonneg [] = True"
| "durations_nonneg (CdSetInitial ms # es) = (0 \<le> ms \<and> durations_nonneg es)"
| "durations_nonneg (e # es) = durations_nonneg es"

section \<open>CountdownInputManager\<close>

subsection \<open>The string operations of JavaScript that the keypad handler uses\<close>

definition is_digit :: "char \<Rightarrow> bool" where
  "is_digit c = (c \<in> set ''0123456789'')"

definition digit_char :: "nat \<Rightarrow> char" where
  "digit_char d = ''0123456789'' ! d"

definition digit_val :: "char \<Rightarrow> nat" where
  "digit_val c = of_char c - 48"

text \<open>\<^verbatim>\<open>/^\d$/.test(digit)\<close>: exactly one decimal digit.\<close>

definition single_digit :: "string \<Rightarrow> bool" where
  "single_digit digit = (case digit of [c] \<Rightarrow> is_digit c | _ \<Rightarrow> False)"

text \<open>\<^verbatim>\<open>Number.prototype.toString\<close> on a non-negative integer.\<close>

fun toString :: "nat \<Rightarrow> string" where
  "toString n =
     (if n < 10 then [digit_char n] else toString (n div 10) @ [digit_char (n mod 10)])"

declare toString.simps [simp del]

definition padStart :: "nat \<Rightarrow> char \<Rightarrow> string \<Rightarrow> string" where
  "padStart n c s = replicate (n - length s) c @ s"

text \<open>An index argument of \<^verbatim>\<open>String.prototype.slice\<close>: negative counts from the end, and
  the result is kept inside the string.\<close>

definition slice_index :: "int \<Rightarrow> nat \<Rightarrow> nat" where
  "slice_index i len = (if i < 0 then nat (max (int len + i) 0) else min (nat i) len)"

definition slice_from :: "int \<Rightarrow> string \<Rightarrow> string" where
  "slice_from a s = drop (slice_index a (length s)) s"

definition slice :: "int \<Rightarrow> int \<Rightarrow> string \<Rightarrow> string" where
  "slice a b s =
     take (slice_index b (length s) - slice_index a (length s))
       (drop (slice_index a (length s)) s)"

text \<open>\<^verbatim>\<open>parseInt\<close> on a string of decimal digits: the value of the leading digits, and
  \<open>None\<close> for \<^verbatim>\<open>NaN\<close> when there is none. Signs, white space and the \<^verbatim>\<open>0x\<close> prefix are left
  out: the handler only parses slices of a string of decimal digits
  (\<open>handleNumberInput_parses\<close> below).\<close>

definition parseInt :: "string \<Rightarrow> nat option" where
  "parseInt s =
     (let ds = takeWhile is_digit s
      in if ds = [] then None else Some (foldl (\<lambda>a c. 10 * a + digit_val c) 0 ds))"

subsection \<open>The handler\<close>

record input_manager =
  inputMs :: nat
  shown :: "nat list"

definition im_init :: input_manager where
  "im_init = \<lparr>inputMs = 0, shown = [0]\<rparr>"

text \<open>Which path a call of \<open>handleNumberInput\<close> took. \<open>Not_a_number\<close> is the path on which a
  \<^verbatim>\<open>parseInt\<close> yields \<^verbatim>\<open>NaN\<close>; the field \<open>inputMs\<close> holds numbers only, and that path is shown
  to be dead.\<close>

datatype outcome = Invalid_input | Rejected | Clamped | Updated | Not_a_number

definition handleNumberInput :: "string \<Rightarrow> input_manager \<Rightarrow> outcome \<times> input_manager" where
  "handleNumberInput digit im =
     (if \<not> single_digit digit then (Invalid_input, im)
      else
        let currentNumString = padStart 6 (CHR ''0'') (toString (inputMs im div MS_PER_SECOND));
            newNumString = slice_from (- 5) currentNumString @ digit
        in case (parseInt (slice_from (- 2) newNumString),
                 parseInt (slice (- 4) (- 2) newNumString),
                 parseInt (slice 0 (- 4) newNumString)) of
             (Some newSeconds, Some newMinutes, Some newHours) \<Rightarrow>
               if newHours > 23 \<or> newMinutes > 59 \<or> newSeconds > 59 then (Rejected, im)
               else
                 let ms = newHours * MS_PER_HOUR + newMinutes * MS_PER_MINUTE
                          + newSeconds * MS_PER_SECOND
                 in if ms > MAX_COUNTDOWN_MS
                    then (Clamped, im\<lparr>inputMs := MAX_COUNTDOWN_MS,
                                      shown := shown im @ [MAX_COUNTDOWN_MS]\<rparr>)
                    else (Updated, im\<lparr>inputMs := ms, shown := shown im @ [ms]\<rparr>)
           | _ \<Rightarrow> (Not_a_number, im))"

definition clearInput :: "input_manager \<Rightarrow> input_manager" where
  "clearInput im = im\<lparr>inputMs := 0, shown := shown im @ [0]\<rparr>"

text \<open>\<open>triggerSet\<close>: the value handed to the registered callback, if any.\<close>

definition triggerSet :: "input_manager \<Rightarrow> nat option" where
  "triggerSet im = (if inputMs im > 0 then Some (inputMs im) else None)"

text \<open>The callback the bootstrap registers with \<open>onSet\<close>.\<close>

definition onSet_callback :: "nat \<Rightarrow> countdown \<Rightarrow> countdown" where
  "onSet_callback setMs cd = setInitialTime (int setMs) cd"

datatype im_event = Press string | ClearInput

fun im_step :: "input_manager \<Rightarrow> im_event \<Rightarrow> input_manager" where
  "im_step im (Press d) = snd (handleNumberInput d im)"
| "im_step im ClearInput = clearInput im"

definition im_run :: "im_event list \<Rightarrow> input_manager \<Rightarrow> input_manager" where
  "im_run evs im = foldl im_step im evs"

section \<open>Accounting over stopwatch traces\<close>





section \<open>Invariants\<close>

text \<open>An engine that is running holds exactly the interval its \<open>timer\<close> field names; an
  engine that is not running holds none.\<close>

definition sched_ok :: "'a engine_scheme \<Rightarrow> bool" where
  "sched_ok s =
     (if isRunning s then timer s \<noteq> None \<and> intervals s = [the (timer s)]
      else intervals s = [])"


text \<open>At clock reading \<open>t\<close>, the stopwatch has shown no negative value and its anchor is not
  in the future.\<close>

definition sw_nonneg :: "int \<Rightarrow> stopwatch \<Rightarrow> bool" where
  "sw_nonneg t w =
     (sched_ok w \<and> 0 \<le> elapsedTime w \<and> list_all (\<lambda>v. 0 \<le> v) (display w)
      \<and> (if isRunning w then startTime w \<le> t else True))"

definition cd_nonneg :: "countdown \<Rightarrow> bool" where
  "cd_nonneg c = (sched_ok c \<and> 0 \<le> initialTimeMs c \<and> list_all (\<lambda>v. 0 \<le> v) (display c))"

definition digits :: "string \<Rightarrow> bool" where
  "digits s = list_all is_digit s"

text \<open>The sum the keypad handler assigns to \<open>inputMs\<close>.\<close>

definition hms_to_ms :: "nat \<Rightarrow> nat \<Rightarrow> nat \<Rightarrow> nat" where
  "hms_to_ms h m s = h * MS_PER_HOUR + m * MS_PER_MINUTE + s * MS_PER_SECOND"

section \<open>The scheduler invariant is kept\<close>

lemmas engine_defs = setInterval_def clearInterval_def update_def updateButtonState_def

lemma cd_callback_unfold:
  "cd_callback now s =
     (if endTime s - now \<le> 0
      then updateButtonState Start_label (update 0 (cd_pause (s\<lparr>remainingTime := 0\<rparr>)))
      else update (endTime s - now) (s\<lparr>remainingTime := endTime s - now\<rparr>))"
  by (simp add: cd_callback_def Let_def)

lemma fire_all_idle: "intervals s = [] \<Longrightarrow> fire_all cb s = s"
  by (simp add: fire_all_def)

lemma fire_all_single: "intervals s = [h] \<Longrightarrow> fire_all cb s = cb s"
  by (simp add: fire_all_def)

lemma sched_ok_idle: "sched_ok s \<Longrightarrow> \<not> isRunning s \<Longrightarrow> intervals s = []"
  by (simp add: sched_ok_def)

lemma sched_ok_running:
  "sched_ok s \<Longrightarrow> isRunning s \<Longrightarrow> \<exists>h. timer s = Some h \<and> intervals s = [h]"
  by (auto simp: sched_ok_def)

lemma sched_ok_length: "sched_ok s \<Longrightarrow> length (intervals s) \<le> 1"
  by (auto simp: sched_ok_def split: if_splits)

lemma sched_ok_frame [simp]:
  "sched_ok (s\<lparr>label := b\<rparr>) = sched_ok s"
  "sched_ok (s\<lparr>display := d\<rparr>) = sched_ok s"
  "sched_ok (update v s) = sched_ok s"
  by (simp_all add: sched_ok_def update_def)

lemma sched_ok_sw_frame [simp]:
  "sched_ok (w\<lparr>elapsedTime := e\<rparr>) = sched_ok w"
  "sched_ok (w\<lparr>startTime := a\<rparr>) = sched_ok w"
  for w :: stopwatch
  by (simp_all add: sched_ok_def)

lemma sched_ok_cd_frame [simp]:
  "sched_ok (c\<lparr>initialTimeMs := i\<rparr>) = sched_ok c"
  "sched_ok (c\<lparr>remainingTime := r\<rparr>) = sched_ok c"
  "sched_ok (c\<lparr>endTime := e\<rparr>) = sched_ok c"
  "sched_ok (updateButtonState b c) = sched_ok c"
  for c :: countdown
  by (simp_all add: sched_ok_def updateButtonState_def)

lemma sched_ok_setInterval: "intervals s = [] \<Longrightarrow> isRunning s \<Longrightarrow> sched_ok (setInterval s)"
  by (simp add: sched_ok_def setInterval_def)

lemma sched_ok_clearInterval: "sched_ok s \<Longrightarrow> sched_ok (clearInterval (s\<lparr>isRunning := False\<rparr>))"
  by (auto simp: sched_ok_def clearInterval_def split: option.splits if_splits)

subsection \<open>Stopwatch\<close>

lemma sw_tick_idle: "sched_ok s \<Longrightarrow> \<not> isRunning s \<Longrightarrow> sw_tick now s = s"
  by (simp add: sw_tick_def fire_all_idle sched_ok_idle)

lemma sw_tick_running: "sched_ok s \<Longrightarrow> isRunning s \<Longrightarrow> sw_tick now s = sw_callback now s"
  by (auto simp: sw_tick_def dest!: sched_ok_running intro: fire_all_single)

lemma sched_ok_sw_start: "sched_ok s \<Longrightarrow> sched_ok (sw_start now s)"
  by (simp add: sw_start_def sched_ok_setInterval sched_ok_idle)

lemma sched_ok_sw_pause: "sched_ok s \<Longrightarrow> sched_ok (sw_pause s)"
  by (simp add: sw_pause_def sched_ok_clearInterval)

lemma sched_ok_sw_clear: "sched_ok s \<Longrightarrow> sched_ok (sw_clear s)"
  by (simp add: sw_clear_def sched_ok_sw_pause)

lemma sched_ok_sw_callback: "sched_ok s \<Longrightarrow> sched_ok (sw_callback now s)"
  by (simp add: sw_callback_def)

lemma sched_ok_sw_tick: "sched_ok s \<Longrightarrow> sched_ok (sw_tick now s)"
  by (cases "isRunning s") (simp_all add: sw_tick_idle sw_tick_running sched_ok_sw_callback)

lemma sched_ok_sw_step: "sched_ok s \<Longrightarrow> sched_ok (sw_step s e)"
  by (cases e)
     (simp_all add: sched_ok_sw_start sched_ok_sw_pause sched_ok_sw_clear sched_ok_sw_tick
        sw_reset_def sw_toggleStartPause_def)

lemma sched_ok_sw_init: "sched_ok (sw_init lbl)"
  by (simp add: sched_ok_def sw_init_def)

lemma sched_ok_sw_run: "sched_ok s \<Longrightarrow> sched_ok (sw_run evs s)"
  unfolding sw_run_def by (induction evs arbitrary: s) (simp_all add: sched_ok_sw_step)

lemma sw_pause_fields:
  "elapsedTime (sw_pause w) = elapsedTime w"
  "startTime (sw_pause w) = startTime w"
  "display (sw_pause w) = display w"
  "\<not> isRunning (sw_pause w)"
  by (simp_all add: sw_pause_def engine_defs split: option.splits)

lemma sw_pause_stops: "sched_ok w \<Longrightarrow> intervals (sw_pause w) = []"
  using sched_ok_sw_pause [of w] by (simp add: sched_ok_idle sw_pause_fields)

lemma sw_clear_result:
  "sched_ok w \<Longrightarrow>
   elapsedTime (sw_clear w) = 0 \<and> \<not> isRunning (sw_clear w) \<and> intervals (sw_clear w) = []
   \<and> label (sw_clear w) = Start_label \<and> display (sw_clear w) = display w @ [0]"
  by (simp add: sw_clear_def update_def sw_pause_fields sw_pause_stops)

lemma sw_start_twice: "sw_start t2 (sw_start t1 w) = sw_start t1 w"
  by (simp add: sw_start_def setInterval_def)

subsection \<open>Countdown\<close>

lemma cd_tick_idle: "sched_ok s \<Longrightarrow> \<not> isRunning s \<Longrightarrow> cd_tick now s = s"
  by (simp add: cd_tick_def fire_all_idle sched_ok_idle)

lemma cd_tick_running: "sched_ok s \<Longrightarrow> isRunning s \<Longrightarrow> cd_tick now s = cd_callback now s"
  by (auto simp: cd_tick_def dest!: sched_ok_running intro: fire_all_single)

lemma sched_ok_setInitialTime: "sched_ok s \<Longrightarrow> sched_ok (setInitialTime ms s)"
  by (simp add: setInitialTime_def)

lemma sched_ok_cd_start: "sched_ok s \<Longrightarrow> sched_ok (cd_start now s)"
  by (simp add: cd_start_def updateButtonState_def sched_ok_setInterval sched_ok_idle)

lemma sched_ok_cd_pause: "sched_ok s \<Longrightarrow> sched_ok (cd_pause s)"
  by (simp add: cd_pause_def sched_ok_clearInterval)

lemma sched_ok_cd_callback: "sched_ok s \<Longrightarrow> sched_ok (cd_callback now s)"
  by (simp add: cd_callback_unfold sched_ok_cd_pause)

lemma sched_ok_cd_tick: "sched_ok s \<Longrightarrow> sched_ok (cd_tick now s)"
  by (cases "isRunning s") (simp_all add: cd_tick_idle cd_tick_running sched_ok_cd_callback)

lemma sched_ok_cd_clear: "sched_ok s \<Longrightarrow> sched_ok (cd_clear s)"
  by (simp add: cd_clear_def Let_def sched_ok_cd_pause)

lemma sched_ok_cd_reset: "sched_ok s \<Longrightarrow> sched_ok (cd_reset s)"
  by (simp add: cd_reset_def sched_ok_cd_pause)

lemma sched_ok_cd_step: "sched_ok s \<Longrightarrow> sched_ok (cd_step s e)"
  by (cases e)
     (simp_all add: sched_ok_setInitialTime sched_ok_cd_start sched_ok_cd_pause
        sched_ok_cd_clear sched_ok_cd_reset sched_ok_cd_tick continueCountdown_def
        toggleStartPauseContinue_def)

lemma sched_ok_cd_init: "sched_ok (cd_init lbl)"
  by (simp add: sched_ok_def cd_init_def)

lemma sched_ok_cd_run: "sched_ok s \<Longrightarrow> sched_ok (cd_run evs s)"
  unfolding cd_run_def by (induction evs arbitrary: s) (simp_all add: sched_ok_cd_step)

lemma cd_pause_fields:
  "initialTimeMs (cd_pause s) = initialTimeMs s"
  "remainingTime (cd_pause s) = remainingTime s"
  "endTime (cd_pause s) = endTime s"
  "display (cd_pause s) = display s"
  "\<not> isRunning (cd_pause s)"
  by (simp_all add: cd_pause_def engine_defs split: option.splits)

lemma cd_pause_stops: "sched_ok s \<Longrightarrow> intervals (cd_pause s) = []"
  using sched_ok_cd_pause [of s] by (simp add: sched_ok_idle cd_pause_fields)

lemma cd_clear_result:
  "sched_ok s \<Longrightarrow>
   remainingTime (cd_clear s) = initialTimeMs s \<and> initialTimeMs (cd_clear s) = initialTimeMs s
   \<and> \<not> isRunning (cd_clear s) \<and> intervals (cd_clear s) = [] \<and> label (cd_clear s) = Start_label
   \<and> display (cd_clear s) = display s @ [initialTimeMs s]"
  by (simp add: cd_clear_def Let_def update_def updateButtonState_def cd_pause_fields
      cd_pause_stops)

lemma set_then_clear: "remainingTime (cd_clear (setInitialTime ms s)) = ms"
  by (simp add: cd_clear_def Let_def setInitialTime_def update_def updateButtonState_def
      cd_pause_def clearInterval_def split: option.splits)

lemma cd_start_twice: "cd_start t2 (cd_start t1 c) = cd_start t1 c"
  by (simp add: cd_start_def setInterval_def updateButtonState_def)

lemmas cd_eval = cd_run_def cd_init_def setInitialTime_def cd_start_def cd_tick_def cd_pause_def
  fire_all_def cd_callback_unfold engine_defs


subsection \<open>The countdown up to its deadline\<close>

lemma cd_ticks_before_deadline:
  "sched_ok s \<Longrightarrow> isRunning s \<Longrightarrow> \<forall>t\<in>set ts. t < endTime s \<Longrightarrow>
   sched_ok (cd_run (map CdTick ts) s) \<and> isRunning (cd_run (map CdTick ts) s)
   \<and> endTime (cd_run (map CdTick ts) s) = endTime s
   \<and> display (cd_run (map CdTick ts) s) = display s @ map (\<lambda>t. endTime s - t) ts"
proof (induction ts arbitrary: s)
  case Nil
  then show ?case by (simp add: cd_run_def)
next
  case (Cons t ts)
  let ?s = "cd_tick t s"
  from Cons.prems have t: "t < endTime s" by simp
  from Cons.prems have eq: "?s = update (endTime s - t) (s\<lparr>remainingTime := endTime s - t\<rparr>)"
    using t by (simp add: cd_tick_running cd_callback_unfold)
  have ok: "sched_ok ?s" using Cons.prems(1) by (rule sched_ok_cd_tick)
  have run: "isRunning ?s" using Cons.prems(2) by (simp add: eq update_def)
  have e: "endTime ?s = endTime s" by (simp add: eq update_def)
  have bef: "\<forall>t\<in>set ts. t < endTime ?s" using Cons.prems(3) by (simp add: e)
  note Cons.IH [OF ok run bef]
  moreover have "display ?s = display s @ [endTime s - t]" by (simp add: eq update_def)
  moreover have "cd_run (map CdTick (t # ts)) s = cd_run (map CdTick ts) ?s"
    by (simp add: cd_run_def)
  ultimately show ?case by (simp add: e)
qed

lemma cd_callback_at_deadline:
  "sched_ok s \<Longrightarrow> endTime s \<le> now \<Longrightarrow>
   remainingTime (cd_callback now s) = 0 \<and> \<not> isRunning (cd_callback now s)
   \<and> intervals (cd_callback now s) = [] \<and> label (cd_callback now s) = Start_label
   \<and> display (cd_callback now s) = display s @ [0]"
  using cd_pause_stops [of "s\<lparr>remainingTime := 0\<rparr>"]
  by (simp add: cd_callback_unfold update_def updateButtonState_def cd_pause_fields)

lemma cd_run_append: "cd_run (xs @ ys) s = cd_run ys (cd_run xs s)"
  by (simp add: cd_run_def)

lemma cd_armed:
  "sched_ok s \<Longrightarrow> \<not> isRunning s \<Longrightarrow> 0 < ms \<Longrightarrow>
   sched_ok (cd_start t0 (setInitialTime ms s)) \<and> isRunning (cd_start t0 (setInitialTime ms s))
   \<and> endTime (cd_start t0 (setInitialTime ms s)) = t0 + ms
   \<and> display (cd_start t0 (setInitialTime ms s)) = display s @ [ms]"
  by (simp add: sched_ok_def cd_start_def setInitialTime_def engine_defs)

subsection \<open>The stopwatch follows the accounting\<close>

lemma sw_start_fields:
  "\<not> isRunning w \<Longrightarrow> isRunning (sw_start t w) \<and> elapsedTime (sw_start t w) = elapsedTime w
     \<and> startTime (sw_start t w) = t - elapsedTime w"
  "isRunning w \<Longrightarrow> sw_start t w = w"
  by (simp_all add: sw_start_def setInterval_def)

lemma sw_pause_idle: "\<not> isRunning w \<Longrightarrow> sw_pause w = w"
  by (simp add: sw_pause_def)

lemma sw_callback_fields:
  "isRunning (sw_callback t w) = isRunning w"
  "elapsedTime (sw_callback t w) = t - startTime w"
  "startTime (sw_callback t w) = startTime w"
  "display (sw_callback t w) = display w @ [t - startTime w]"
  by (simp_all add: sw_callback_def update_def)

lemma sw_clear_fields: "\<not> isRunning (sw_clear w)" "elapsedTime (sw_clear w) = 0"
  by (simp_all add: sw_clear_def update_def sw_pause_fields)







subsection \<open>Nothing negative is shown\<close>

lemma sw_nonneg_step: "sw_nonneg t w \<Longrightarrow> t \<le> sw_time e \<Longrightarrow> sw_nonneg (sw_time e) (sw_step w e)"
proof (cases "isRunning w")
  case True
  assume "sw_nonneg t w" "t \<le> sw_time e"
  with True have w: "sched_ok w" "isRunning w" "0 \<le> elapsedTime w" "startTime w \<le> t"
    "list_all (\<lambda>v. 0 \<le> v) (display w)" "t \<le> sw_time e"
    by (simp_all add: sw_nonneg_def)
  show ?thesis
    using w sched_ok_sw_pause [of w] sched_ok_sw_clear [of w] sched_ok_sw_callback [of w]
    by (cases e)
       (simp_all add: sw_nonneg_def sw_start_fields sw_pause_fields sw_tick_running
          sw_callback_fields sw_clear_fields sw_clear_result sw_reset_def sw_toggleStartPause_def)
next
  case False
  assume "sw_nonneg t w" "t \<le> sw_time e"
  with False have w: "sched_ok w" "\<not> isRunning w" "0 \<le> elapsedTime w"
    "list_all (\<lambda>v. 0 \<le> v) (display w)" "t \<le> sw_time e"
    by (simp_all add: sw_nonneg_def)
  have d: "display (sw_start t' w) = display w" for t'
    by (simp add: sw_start_def setInterval_def)
  show ?thesis
    using w sched_ok_sw_start [of w] sched_ok_sw_clear [of w]
    by (cases e)
       (simp_all add: sw_nonneg_def sw_start_fields d sw_pause_idle sw_tick_idle
          sw_clear_fields sw_clear_result sw_reset_def sw_toggleStartPause_def)
qed

lemma sw_nonneg_run:
  "sw_nonneg t w \<Longrightarrow> monotone_clock t evs \<Longrightarrow> list_all (\<lambda>v. 0 \<le> v) (display (sw_run evs w))"
proof (induction evs arbitrary: t w)
  case Nil
  then show ?case by (simp add: sw_run_def sw_nonneg_def)
next
  case (Cons e evs)
  from Cons.prems have "sw_nonneg (sw_time e) (sw_step w e)" "monotone_clock (sw_time e) evs"
    by (simp_all add: sw_nonneg_step)
  then have "list_all (\<lambda>v. 0 \<le> v) (display (sw_run evs (sw_step w e)))"
    by (rule Cons.IH)
  then show ?case by (simp add: sw_run_def)
qed

lemma sw_nonneg_init: "sw_nonneg t (sw_init lbl)"
  by (simp add: sw_nonneg_def sched_ok_sw_init) (simp add: sw_init_def)

lemma cd_start_fields:
  "initialTimeMs (cd_start t c) = initialTimeMs c" "display (cd_start t c) = display c"
  by (simp_all add: cd_start_def engine_defs)

lemma cd_callback_nonneg:
  "initialTimeMs (cd_callback t c) = initialTimeMs c"
  "list_all (\<lambda>v. 0 \<le> v) (display c) \<Longrightarrow> list_all (\<lambda>v. 0 \<le> v) (display (cd_callback t c))"
  by (simp_all add: cd_callback_unfold update_def updateButtonState_def cd_pause_fields)

lemma cd_nonneg_tick: "cd_nonneg c \<Longrightarrow> cd_nonneg (cd_tick t c)"
  by (cases "isRunning c")
     (simp_all add: cd_nonneg_def cd_tick_idle cd_tick_running sched_ok_cd_callback
        cd_callback_nonneg)

lemma cd_nonneg_start: "cd_nonneg c \<Longrightarrow> cd_nonneg (cd_start t c)"
  by (simp add: cd_nonneg_def sched_ok_cd_start cd_start_fields)

lemma cd_nonneg_pause: "cd_nonneg c \<Longrightarrow> cd_nonneg (cd_pause c)"
  by (simp add: cd_nonneg_def sched_ok_cd_pause cd_pause_fields)

lemma cd_nonneg_clear: "cd_nonneg c \<Longrightarrow> cd_nonneg (cd_clear c)"
  by (simp add: cd_nonneg_def sched_ok_cd_clear cd_clear_result)

lemma cd_nonneg_reset: "cd_nonneg c \<Longrightarrow> cd_nonneg (cd_reset c)"
  by (simp add: cd_nonneg_def sched_ok_cd_reset)
     (simp add: cd_reset_def update_def updateButtonState_def cd_pause_fields)

lemma cd_nonneg_set: "cd_nonneg c \<Longrightarrow> 0 \<le> ms \<Longrightarrow> cd_nonneg (setInitialTime ms c)"
  by (simp add: cd_nonneg_def sched_ok_setInitialTime)
     (simp add: setInitialTime_def update_def updateButtonState_def)

lemma cd_nonneg_run:
  "cd_nonneg c \<Longrightarrow> durations_nonneg evs \<Longrightarrow> cd_nonneg (cd_run evs c)"
proof (induction evs arbitrary: c)
  case Nil
  then show ?case by (simp add: cd_run_def)
next
  case (Cons e evs)
  from Cons.prems have "cd_nonneg (cd_step c e) \<and> durations_nonneg evs"
    by (cases e)
       (simp_all add: cd_nonneg_set cd_nonneg_start cd_nonneg_pause cd_nonneg_clear
          cd_nonneg_reset cd_nonneg_tick continueCountdown_def toggleStartPauseContinue_def)
  then have "cd_nonneg (cd_run evs (cd_step c e))"
    by (simp add: Cons.IH)
  then show ?case by (simp add: cd_run_def)
qed

lemma cd_nonneg_init: "cd_nonneg (cd_init lbl)"
  by (simp add: cd_nonneg_def sched_ok_cd_init) (simp add: cd_init_def)

subsection \<open>The keypad handler's strings\<close>

lemma is_digit_digit_char: "d < 10 \<Longrightarrow> is_digit (digit_char d)"
proof -
  assume "d < 10"
  then have "d \<in> {0, 1, 2, 3, 4, 5, 6, 7, 8, 9}" by auto
  then show ?thesis by (auto simp: is_digit_def digit_char_def)
qed

lemma toString_small: "n < 10 \<Longrightarrow> toString n = [digit_char n]"
  by (simp add: toString.simps)

lemma toString_large:
  "\<not> n < 10 \<Longrightarrow> toString n = toString (n div 10) @ [digit_char (n mod 10)]"
  by (subst toString.simps) simp

lemma digits_toString: "digits (toString n)"
proof (induction n rule: toString.induct)
  case (1 n)
  show ?case
  proof (cases "n < 10")
    case True
    then show ?thesis by (simp add: toString_small digits_def is_digit_digit_char)
  next
    case False
    with 1 have "digits (toString (n div 10))" by simp
    then show ?thesis using False
      by (simp add: toString_large digits_def is_digit_digit_char)
  qed
qed

lemma is_digit_zero: "is_digit (CHR ''0'')"
  by (simp add: is_digit_def)

lemma digits_padStart: "digits s \<Longrightarrow> digits (padStart n (CHR ''0'') s)"
  using is_digit_zero by (auto simp: padStart_def digits_def list_all_iff)

lemma length_padStart: "n \<le> length (padStart n c s)"
  by (simp add: padStart_def)

lemma digits_drop: "digits s \<Longrightarrow> digits (drop k s)"
  by (auto simp: digits_def list_all_iff dest: in_set_dropD)

lemma digits_take: "digits s \<Longrightarrow> digits (take k s)"
  by (auto simp: digits_def list_all_iff dest: in_set_takeD)

lemma single_digit_digits: "single_digit d \<Longrightarrow> digits d \<and> length d = 1"
  by (auto simp: single_digit_def digits_def split: list.splits)

lemma parseInt_digits: "digits s \<Longrightarrow> s \<noteq> [] \<Longrightarrow> \<exists>v. parseInt s = Some v"
  by (cases s) (simp_all add: parseInt_def digits_def Let_def)

lemma newNumString_shape:
  assumes "digits cur" "6 \<le> length cur" "single_digit d"
  shows "digits (slice_from (- 5) cur @ d) \<and> length (slice_from (- 5) cur @ d) = 6"
  using assms single_digit_digits [of d]
  by (auto simp: slice_from_def slice_index_def digits_def list_all_iff dest: in_set_dropD)

lemma slices_parse:
  assumes "digits s" "length s = 6"
  shows "\<exists>a b c. parseInt (slice_from (- 2) s) = Some a \<and> parseInt (slice (- 4) (- 2) s) = Some b
           \<and> parseInt (slice 0 (- 4) s) = Some c"
proof -
  have "digits (slice_from (- 2) s)" "slice_from (- 2) s \<noteq> []"
    using assms by (auto simp: slice_from_def slice_index_def digits_drop)
  moreover have "digits (slice (- 4) (- 2) s)" "slice (- 4) (- 2) s \<noteq> []"
    using assms by (auto simp: slice_def slice_index_def digits_drop digits_take)
  moreover have "digits (slice 0 (- 4) s)" "slice 0 (- 4) s \<noteq> []"
    using assms by (auto simp: slice_def slice_index_def digits_drop digits_take)
  ultimately show ?thesis by (meson parseInt_digits)
qed

lemma handleNumberInput_parses: "fst (handleNumberInput d im) \<noteq> Not_a_number"
proof (cases "single_digit d")
  case False
  then show ?thesis by (simp add: handleNumberInput_def)
next
  case True
  let ?cur = "padStart 6 (CHR ''0'') (toString (inputMs im div MS_PER_SECOND))"
  have "digits ?cur" "6 \<le> length ?cur"
    by (simp_all add: digits_padStart digits_toString length_padStart)
  from newNumString_shape [OF this True]
  have "digits (slice_from (- 5) ?cur @ d)" "length (slice_from (- 5) ?cur @ d) = 6"
    by simp_all
  from slices_parse [OF this] obtain a b c where
    "parseInt (slice_from (- 2) (slice_from (- 5) ?cur @ d)) = Some a"
    "parseInt (slice (- 4) (- 2) (slice_from (- 5) ?cur @ d)) = Some b"
    "parseInt (slice 0 (- 4) (slice_from (- 5) ?cur @ d)) = Some c"
    by blast
  then show ?thesis
    using True by (simp add: handleNumberInput_def Let_def)
qed

lemma MAX_COUNTDOWN_MS_value: "MAX_COUNTDOWN_MS = 86399999"
  by (simp add: MAX_COUNTDOWN_MS_def MS_PER_HOUR_def)

lemma accepted_bound:
  assumes "h \<le> 23" "m \<le> 59" "s \<le> 59"
  shows "hms_to_ms h m s \<le> 86399000" "hms_to_ms h m s mod 1000 = 0"
proof -
  have e: "hms_to_ms h m s = 1000 * (h * 3600 + m * 60 + s)"
    by (simp add: hms_to_ms_def MS_PER_HOUR_def MS_PER_MINUTE_def MS_PER_SECOND_def)
  from assms have "h * 3600 + m * 60 + s \<le> 86399" by linarith
  then show "hms_to_ms h m s \<le> 86399000" unfolding e by simp
  show "hms_to_ms h m s mod 1000 = 0" unfolding e by simp
qed

lemma handleNumberInput_parsed:
  assumes "single_digit d"
    and "parseInt (slice_from (- 2) (slice_from (- 5)
           (padStart 6 (CHR ''0'') (toString (inputMs im div MS_PER_SECOND))) @ d)) = Some s"
    and "parseInt (slice (- 4) (- 2) (slice_from (- 5)
           (padStart 6 (CHR ''0'') (toString (inputMs im div MS_PER_SECOND))) @ d)) = Some m"
    and "parseInt (slice 0 (- 4) (slice_from (- 5)
           (padStart 6 (CHR ''0'') (toString (inputMs im div MS_PER_SECOND))) @ d)) = Some h"
  shows "handleNumberInput d im =
     (if h > 23 \<or> m > 59 \<or> s > 59 then (Rejected, im)
      else (Updated, im\<lparr>inputMs := hms_to_ms h m s, shown := shown im @ [hms_to_ms h m s]\<rparr>))"
proof (cases "h > 23 \<or> m > 59 \<or> s > 59")
  case True
  then show ?thesis using assms by (simp add: handleNumberInput_def Let_def)
next
  case False
  then have "h \<le> 23" "m \<le> 59" "s \<le> 59" by simp_all
  from accepted_bound(1) [OF this] have "\<not> hms_to_ms h m s > MAX_COUNTDOWN_MS"
    by (simp add: MAX_COUNTDOWN_MS_value)
  then show ?thesis using assms False
    by (simp add: handleNumberInput_def Let_def hms_to_ms_def)
qed

lemma handleNumberInput_cases:
  "fst (handleNumberInput d im) \<noteq> Clamped
   \<and> fst (handleNumberInput d im) \<noteq> Not_a_number
   \<and> (if fst (handleNumberInput d im) = Updated
       then inputMs (snd (handleNumberInput d im)) mod 1000 = 0
            \<and> inputMs (snd (handleNumberInput d im)) \<le> 86399000
       else snd (handleNumberInput d im) = im)"
proof (cases "single_digit d")
  case False
  then show ?thesis by (simp add: handleNumberInput_def)
next
  case True
  let ?cur = "padStart 6 (CHR ''0'') (toString (inputMs im div MS_PER_SECOND))"
  have "digits ?cur" "6 \<le> length ?cur"
    by (simp_all add: digits_padStart digits_toString length_padStart)
  from newNumString_shape [OF this True]
  have "digits (slice_from (- 5) ?cur @ d)" "length (slice_from (- 5) ?cur @ d) = 6"
    by simp_all
  from slices_parse [OF this] obtain s m h where p:
    "parseInt (slice_from (- 2) (slice_from (- 5) ?cur @ d)) = Some s"
    "parseInt (slice (- 4) (- 2) (slice_from (- 5) ?cur @ d)) = Some m"
    "parseInt (slice 0 (- 4) (slice_from (- 5) ?cur @ d)) = Some h"
    by blast
  note eq = handleNumberInput_parsed [OF True p]
  show ?thesis
  proof (cases "h > 23 \<or> m > 59 \<or> s > 59")
    case True
    then show ?thesis by (simp add: eq)
  next
    case False
    then have "h \<le> 23" "m \<le> 59" "s \<le> 59" by simp_all
    from accepted_bound [OF this] False show ?thesis by (simp add: eq)
  qed
qed

lemma replicate_numeral: "replicate (numeral k) x = x # replicate (pred_numeral k) x"
  by (simp add: numeral_eq_Suc)

lemmas js_eval = toString_small toString_large digit_char_def padStart_def slice_from_def
  slice_def slice_index_def parseInt_def is_digit_def digit_val_def single_digit_def
  replicate_numeral MS_PER_HOUR_def MS_PER_MINUTE_def MS_PER_SECOND_def MAX_COUNTDOWN_MS_def

lemma press_1: "handleNumberInput ''1'' \<lparr>inputMs = 0, shown = sh\<rparr>
    = (Updated, \<lparr>inputMs = 1000, shown = sh @ [1000]\<rparr>)"
  by (simp add: handleNumberInput_def js_eval)

lemma press_2: "handleNumberInput ''2'' \<lparr>inputMs = 1000, shown = sh\<rparr>
    = (Updated, \<lparr>inputMs = 12000, shown = sh @ [12000]\<rparr>)"
  by (simp add: handleNumberInput_def js_eval)

lemma press_3: "handleNumberInput ''3'' \<lparr>inputMs = 12000, shown = sh\<rparr>
    = (Updated, \<lparr>inputMs = 83000, shown = sh @ [83000]\<rparr>)"
  by (simp add: handleNumberInput_def js_eval)

lemma press_4: "handleNumberInput ''4'' \<lparr>inputMs = 83000, shown = sh\<rparr>
    = (Updated, \<lparr>inputMs = 514000, shown = sh @ [514000]\<rparr>)"
  by (simp add: handleNumberInput_def js_eval)

lemma press_5: "handleNumberInput ''5'' \<lparr>inputMs = 514000, shown = sh\<rparr>
    = (Updated, \<lparr>inputMs = 3105000, shown = sh @ [3105000]\<rparr>)"
  by (simp add: handleNumberInput_def js_eval)

lemma press_6: "handleNumberInput ''6'' \<lparr>inputMs = 3105000, shown = sh\<rparr>
    = (Updated, \<lparr>inputMs = 11456000, shown = sh @ [11456000]\<rparr>)"
  by (simp add: handleNumberInput_def js_eval)

lemma press_9: "handleNumberInput ''9'' \<lparr>inputMs = 45296000, shown = sh\<rparr>
    = (Rejected, \<lparr>inputMs = 45296000, shown = sh\<rparr>)"
  by (simp add: handleNumberInput_def js_eval)

lemma press_9_after: "handleNumberInput ''9'' \<lparr>inputMs = 11456000, shown = sh\<rparr>
    = (Rejected, \<lparr>inputMs = 11456000, shown = sh\<rparr>)"
  by (simp add: handleNumberInput_def js_eval)

lemma im_step_bound:
  "inputMs im mod 1000 = 0 \<and> inputMs im \<le> 86399000 \<Longrightarrow>
   inputMs (im_step im e) mod 1000 = 0 \<and> inputMs (im_step im e) \<le> 86399000"
proof (cases e)
  case (Press d)
  assume "inputMs im mod 1000 = 0 \<and> inputMs im \<le> 86399000"
  then show ?thesis
    using handleNumberInput_cases [of d im] by (simp add: Press split: if_splits)
next
  case ClearInput
  then show ?thesis by (simp add: clearInput_def)
qed

lemma im_run_bound:
  "inputMs im mod 1000 = 0 \<and> inputMs im \<le> 86399000 \<Longrightarrow>
   inputMs (im_run evs im) mod 1000 = 0 \<and> inputMs (im_run evs im) \<le> 86399000"
  unfolding im_run_def
proof (induction evs arbitrary: im)
  case Nil
  then show ?case by simp
next
  case (Cons e evs)
  from Cons.prems have "inputMs (im_step im e) mod 1000 = 0 \<and> inputMs (im_step im e) \<le> 86399000"
    by (rule im_step_bound)
  then show ?case by (simp add: Cons.IH)
qed

subsection \<open>The countdown armed while stopped\<close>

text \<open>
  From any state the countdown can reach in which it is not running, and for every
  \<open>ms > 0\<close>: after \<open>setInitialTime(ms)\<close>, \<open>start()\<close> at clock \<open>t0\<close> and any ticks before the
  deadline, the tick at \<open>t0 + ms\<close> sets the remaining time to 0, clears the interval, leaves
  the engine not running with the button on Start, and shows 0. That 0 is the only 0 shown
  since the start; a later tick changes nothing, and \<open>start()\<close> and \<open>continue\<close> are refused.
\<close>

lemma countdown_runs_to_zero:
  assumes idle: "\<not> isRunning (cd_run evs (cd_init lbl))"
    and pos: "0 < ms"
    and before: "\<forall>t\<in>set ts. t < t0 + ms"
  shows "remainingTime (cd_run (evs @ CdSetInitial ms # CdStart t0 # map CdTick ts
            @ [CdTick (t0 + ms)]) (cd_init lbl)) = 0
    \<and> \<not> isRunning (cd_run (evs @ CdSetInitial ms # CdStart t0 # map CdTick ts
            @ [CdTick (t0 + ms)]) (cd_init lbl))
    \<and> intervals (cd_run (evs @ CdSetInitial ms # CdStart t0 # map CdTick ts
            @ [CdTick (t0 + ms)]) (cd_init lbl)) = []
    \<and> label (cd_run (evs @ CdSetInitial ms # CdStart t0 # map CdTick ts
            @ [CdTick (t0 + ms)]) (cd_init lbl)) = Start_label
    \<and> display (cd_run (evs @ CdSetInitial ms # CdStart t0 # map CdTick ts
            @ [CdTick (t0 + ms)]) (cd_init lbl))
        = display (cd_run evs (cd_init lbl)) @ [ms] @ map (\<lambda>t. t0 + ms - t) ts @ [0]
    \<and> count_list (map (\<lambda>t. t0 + ms - t) ts @ [0]) 0 = 1
    \<and> cd_run (evs @ CdSetInitial ms # CdStart t0 # map CdTick ts
            @ [CdTick (t0 + ms), CdTick t']) (cd_init lbl)
        = cd_run (evs @ CdSetInitial ms # CdStart t0 # map CdTick ts
            @ [CdTick (t0 + ms)]) (cd_init lbl)
    \<and> cd_start t' (cd_run (evs @ CdSetInitial ms # CdStart t0 # map CdTick ts
            @ [CdTick (t0 + ms)]) (cd_init lbl))
        = cd_run (evs @ CdSetInitial ms # CdStart t0 # map CdTick ts
            @ [CdTick (t0 + ms)]) (cd_init lbl)
    \<and> continueCountdown t' (cd_run (evs @ CdSetInitial ms # CdStart t0 # map CdTick ts
            @ [CdTick (t0 + ms)]) (cd_init lbl))
        = cd_run (evs @ CdSetInitial ms # CdStart t0 # map CdTick ts
            @ [CdTick (t0 + ms)]) (cd_init lbl)"
proof -
  let ?s0 = "cd_run evs (cd_init lbl)"
  let ?s1 = "cd_start t0 (setInitialTime ms ?s0)"
  let ?s2 = "cd_run (map CdTick ts) ?s1"
  let ?s3 = "cd_tick (t0 + ms) ?s2"
  have ok0: "sched_ok ?s0" by (simp add: sched_ok_cd_run sched_ok_cd_init)
  from cd_armed [OF ok0 idle pos, of t0]
  have ok1: "sched_ok ?s1" and run1: "isRunning ?s1" and end1: "endTime ?s1 = t0 + ms"
    and dis1: "display ?s1 = display ?s0 @ [ms]" by simp_all
  from before have "\<forall>t\<in>set ts. t < endTime ?s1" by (simp add: end1)
  from cd_ticks_before_deadline [OF ok1 run1 this]
  have ok2: "sched_ok ?s2" and run2: "isRunning ?s2" and end2: "endTime ?s2 = t0 + ms"
    and dis2: "display ?s2 = display ?s0 @ [ms] @ map (\<lambda>t. t0 + ms - t) ts"
    by (simp_all add: end1 dis1)
  have s3: "?s3 = cd_callback (t0 + ms) ?s2" using ok2 run2 by (rule cd_tick_running)
  from cd_callback_at_deadline [OF ok2, of "t0 + ms"] end2
  have fin: "remainingTime ?s3 = 0" "\<not> isRunning ?s3" "intervals ?s3 = []"
    "label ?s3 = Start_label" "display ?s3 = display ?s2 @ [0]" by (simp_all add: s3)
  have ok3: "sched_ok ?s3" using ok2 by (rule sched_ok_cd_tick)
  have whole: "cd_run (evs @ CdSetInitial ms # CdStart t0 # map CdTick ts
            @ [CdTick (t0 + ms)]) (cd_init lbl) = ?s3"
    by (simp add: cd_run_def)
  have more: "cd_run (evs @ CdSetInitial ms # CdStart t0 # map CdTick ts
            @ [CdTick (t0 + ms), CdTick t']) (cd_init lbl) = cd_tick t' ?s3"
    by (simp add: cd_run_def)
  have quiet: "cd_tick t' ?s3 = ?s3" using ok3 fin(2) by (rule cd_tick_idle)
  have again: "cd_start t' ?s3 = ?s3" using fin(1) by (simp add: cd_start_def)
  have cont: "continueCountdown t' ?s3 = ?s3" using fin(1) by (simp add: continueCountdown_def)
  have "0 \<notin> set (map (\<lambda>t. t0 + ms - t) ts)" using before by auto
  then have once: "count_list (map (\<lambda>t. t0 + ms - t) ts @ [0]) 0 = 1"
    by (simp add: count_list_0_iff)
  show ?thesis
    unfolding whole more using fin quiet again cont once by (simp add: dis2)
qed

section \<open>Claims\<close>

text \<open>
  C1, as written: \<open>setInitial(ms)\<close> rejects \<open>ms = 0\<close> and \<open>ms = 86400000\<close> and leaves the
  engine's state unchanged. The code stores both.
\<close>

theorem setInitialTime_rejects_counterexample:
  "setInitialTime 86400000 (cd_init Start_label) \<noteq> cd_init Start_label
   \<and> initialTimeMs (setInitialTime 86400000 (cd_init Start_label)) = 86400000
   \<and> remainingTime (setInitialTime 86400000 (cd_init Start_label)) = 86400000
   \<and> setInitialTime 0 (setInitialTime 5000 (cd_init Start_label))
       \<noteq> setInitialTime 5000 (cd_init Start_label)
   \<and> initialTimeMs (setInitialTime 0 (setInitialTime 5000 (cd_init Start_label))) = 0"
  by (simp add: cd_eval)

text \<open>
  C1, amended. \<open>setInitialTime(ms)\<close> checks nothing and signals nothing: for every \<open>ms\<close> it
  stores \<open>ms\<close> as the initial and the remaining time, shows it, sets the button to Start and
  leaves the running flag, the registered interval and the deadline as they were; so
  \<open>setInitialTime(86399999)\<close> succeeds. Zero is kept away by the caller: \<open>triggerSet\<close> never
  hands over 0.
\<close>

theorem setInitialTime_accepts_all:
  "initialTimeMs (setInitialTime ms s) = ms
   \<and> remainingTime (setInitialTime ms s) = ms
   \<and> display (setInitialTime ms s) = display s @ [ms]
   \<and> label (setInitialTime ms s) = Start_label
   \<and> isRunning (setInitialTime ms s) = isRunning s
   \<and> intervals (setInitialTime ms s) = intervals s
   \<and> endTime (setInitialTime ms s) = endTime s
   \<and> initialTimeMs (setInitialTime 86399999 s) = 86399999
   \<and> triggerSet im \<noteq> Some 0"
  by (simp add: setInitialTime_def engine_defs triggerSet_def)



text \<open>
  C3. The keypad handler is meant to shift the six digits \<open>HHMMSS\<close> left and append the
  pressed digit, so that 1, 2, 3, 4, 5, 6 from a cleared buffer give 12:34:56, that is
  45296000 ms. The code shifts the decimal digits of the total number of seconds instead:
  after 1, 2, 3 the buffer holds 83 s (shown 00:01:23), pressing 4 turns \<open>000083\<close> into
  \<open>000834\<close>, 514 s, and the six presses end at 11456 s, shown 03:10:56. A following 9 is
  rejected there (seconds 69), as it is from 45296000 ms (hours 45).
\<close>

theorem keypad_123456:
  "inputMs (im_run (map Press [''1'', ''2'', ''3'']) im_init) = 83000
   \<and> inputMs (im_run (map Press [''1'', ''2'', ''3'', ''4'']) im_init) = 514000
   \<and> inputMs (im_run (map Press [''1'', ''2'', ''3'', ''4'', ''5'', ''6'']) im_init) = 11456000
   \<and> (12 * 3600 + 34 * 60 + 56) * 1000 = (45296000 :: nat)
   \<and> inputMs (im_run (map Press [''1'', ''2'', ''3'', ''4'', ''5'', ''6'', ''9'']) im_init)
       = 11456000
   \<and> handleNumberInput ''9'' \<lparr>inputMs = 45296000, shown = []\<rparr>
       = (Rejected, \<lparr>inputMs = 45296000, shown = []\<rparr>)"
  by (simp add: im_run_def im_init_def press_1 press_2 press_3 press_4 press_5 press_6
      press_9 press_9_after)

text \<open>
  C4. For every \<open>ms\<close> from 1 to 86399999, \<open>setInitialTime(ms)\<close>, \<open>start()\<close> and a tick exactly
  \<open>ms\<close> later should end the countdown: remaining time 0, the interval cleared, 0 shown once.
  \<open>setInitialTime\<close> may be called in any state, and when the engine is running it does not
  stop the interval (the \<open>pause()\<close> that \<open>clear()\<close> and \<open>reset()\<close> call first is missing), so
  the \<open>start()\<close> that follows returns at once and the old deadline stays. After \<open>setInitialTime(5000)\<close> and \<open>start()\<close> at clock 0,
  the calls \<open>setInitialTime(1000)\<close> and \<open>start()\<close> at clock 0 and the tick at clock 1000 leave
  the engine running with its interval registered and 4000 ms remaining; no 0 is shown.
  From an engine that is not running the countdown does end as described
  (\<open>countdown_runs_to_zero\<close>).
\<close>

theorem countdown_rearmed_while_running:
  "isRunning (cd_run [CdSetInitial 5000, CdStart 0, CdSetInitial 1000, CdStart 0, CdTick 1000]
      (cd_init Start_label))
   \<and> remainingTime (cd_run [CdSetInitial 5000, CdStart 0, CdSetInitial 1000, CdStart 0,
        CdTick 1000] (cd_init Start_label)) = 4000
   \<and> endTime (cd_run [CdSetInitial 5000, CdStart 0, CdSetInitial 1000, CdStart 0,
        CdTick 1000] (cd_init Start_label)) = 5000
   \<and> intervals (cd_run [CdSetInitial 5000, CdStart 0, CdSetInitial 1000, CdStart 0,
        CdTick 1000] (cd_init Start_label)) = [0]
   \<and> display (cd_run [CdSetInitial 5000, CdStart 0, CdSetInitial 1000, CdStart 0,
        CdTick 1000] (cd_init Start_label)) = [5000, 1000, 4000]
   \<and> cd_start 0 (cd_run [CdSetInitial 5000, CdStart 0, CdSetInitial 1000] (cd_init Start_label))
       = cd_run [CdSetInitial 5000, CdStart 0, CdSetInitial 1000] (cd_init Start_label)"
  by (simp add: cd_eval)

text \<open>
  C5, as written: \<open>pause()\<close> freezes the remaining time at the deadline minus the clock at the
  instant of the call. After a start at 0 with 1000 ms, a tick at 10 and a pause at 15, the
  code keeps the tick's 990, not 985.
\<close>

theorem pause_rereads_clock_counterexample:
  "remainingTime (cd_run [CdSetInitial 1000, CdStart 0, CdTick 10, CdPause] (cd_init Start_label))
     = 990
   \<and> endTime (cd_run [CdSetInitial 1000, CdStart 0, CdTick 10] (cd_init Start_label)) - 15 = 985"
  by (simp add: cd_eval)

text \<open>
  C5, amended. \<open>pause()\<close> does not read the clock: it leaves the remaining time and the
  deadline as they are. While the countdown runs, that is the value stored by the last tick,
  the deadline minus the clock at that tick, or the value it had at \<open>start()\<close> when no tick
  has fired.
\<close>

theorem pause_keeps_last_tick_value:
  "remainingTime (cd_pause s) = remainingTime s
   \<and> endTime (cd_pause s) = endTime s
   \<and> (isRunning (cd_run evs (cd_init lbl)) \<and> t < endTime (cd_run evs (cd_init lbl)) \<longrightarrow>
        remainingTime (cd_pause (cd_tick t (cd_run evs (cd_init lbl))))
          = endTime (cd_run evs (cd_init lbl)) - t)
   \<and> remainingTime (cd_pause (cd_start t s)) = remainingTime s"
proof -
  let ?r = "cd_run evs (cd_init lbl)"
  have ok: "sched_ok ?r" by (simp add: sched_ok_cd_run sched_ok_cd_init)
  have "remainingTime (cd_pause (cd_tick t ?r)) = endTime ?r - t"
    if "isRunning ?r" "t < endTime ?r"
    using that by (simp add: cd_tick_running [OF ok] cd_pause_fields cd_callback_unfold update_def)
  moreover have "remainingTime (cd_pause (cd_start t s)) = remainingTime s"
    by (simp add: cd_pause_fields cd_start_def engine_defs)
  ultimately show ?thesis by (simp add: cd_pause_fields)
qed

theorem pause_keeps_last_tick_value_witness:
  "isRunning (cd_run [CdSetInitial 1000, CdStart 0] (cd_init Start_label))
   \<and> 10 < endTime (cd_run [CdSetInitial 1000, CdStart 0] (cd_init Start_label))
   \<and> remainingTime (cd_pause (cd_tick 10 (cd_run [CdSetInitial 1000, CdStart 0]
        (cd_init Start_label)))) = 990"
proof -
  have h: "isRunning (cd_run [CdSetInitial 1000, CdStart 0] (cd_init Start_label))"
    "endTime (cd_run [CdSetInitial 1000, CdStart 0] (cd_init Start_label)) = 1000"
    by (simp_all add: cd_eval)
  show ?thesis
    using pause_keeps_last_tick_value [where s = "cd_init Start_label"
        and evs = "[CdSetInitial 1000, CdStart 0]" and lbl = Start_label and t = 10] h
    by simp
qed

text \<open>
  C6. \<open>setInitialTime\<close> called while the countdown runs should stop the ticking, as \<open>clear()\<close>
  and \<open>reset()\<close> do by pausing first. It does not: after \<open>setInitialTime(5000)\<close>, \<open>start()\<close>
  at clock 0 and \<open>setInitialTime(1000)\<close>, the engine is still running with its interval
  registered while the button reads Start, and the tick at clock 10 overwrites the new
  remaining time 1000 with 4990, computed from the old deadline.
\<close>

theorem setInitialTime_while_running:
  "isRunning (cd_run [CdSetInitial 5000, CdStart 0, CdSetInitial 1000] (cd_init Start_label))
   \<and> intervals (cd_run [CdSetInitial 5000, CdStart 0, CdSetInitial 1000] (cd_init Start_label))
       = [0]
   \<and> label (cd_run [CdSetInitial 5000, CdStart 0, CdSetInitial 1000] (cd_init Start_label))
       = Start_label
   \<and> remainingTime (cd_run [CdSetInitial 5000, CdStart 0, CdSetInitial 1000]
        (cd_init Start_label)) = 1000
   \<and> remainingTime (cd_run [CdSetInitial 5000, CdStart 0, CdSetInitial 1000, CdTick 10]
        (cd_init Start_label)) = 4990
   \<and> initialTimeMs (cd_run [CdSetInitial 5000, CdStart 0, CdSetInitial 1000, CdTick 10]
        (cd_init Start_label)) = 1000"
  by (simp add: cd_eval)

text \<open>
  C7. After any sequence of operations and timer periods, \<open>clear()\<close> restores the baseline and
  leaves the engine idle with no interval registered: the countdown has
  \<open>remaining = initial\<close> (and \<open>initial\<close> is kept), the stopwatch has \<open>elapsed = 0\<close>, neither
  is running, and the button reads Start. A value handed over by \<open>triggerSet\<close> (the commit
  of the keypad buffer), passed to \<open>setInitialTime\<close> by the registered callback and followed
  at once by \<open>clear()\<close>, comes back as the remaining time.
\<close>

theorem clear_restores_baseline:
  "remainingTime (cd_clear (cd_run cevs (cd_init cl))) = initialTimeMs (cd_run cevs (cd_init cl))
   \<and> initialTimeMs (cd_clear (cd_run cevs (cd_init cl))) = initialTimeMs (cd_run cevs (cd_init cl))
   \<and> \<not> isRunning (cd_clear (cd_run cevs (cd_init cl)))
   \<and> intervals (cd_clear (cd_run cevs (cd_init cl))) = []
   \<and> label (cd_clear (cd_run cevs (cd_init cl))) = Start_label
   \<and> elapsedTime (sw_clear (sw_run wevs (sw_init wl))) = 0
   \<and> \<not> isRunning (sw_clear (sw_run wevs (sw_init wl)))
   \<and> intervals (sw_clear (sw_run wevs (sw_init wl))) = []
   \<and> label (sw_clear (sw_run wevs (sw_init wl))) = Start_label
   \<and> (triggerSet im = Some ms \<longrightarrow>
        ms = inputMs im \<and> remainingTime (cd_clear (onSet_callback ms c)) = int (inputMs im))"
proof -
  have c: "sched_ok (cd_run cevs (cd_init cl))"
    by (simp add: sched_ok_cd_run sched_ok_cd_init)
  have w: "sched_ok (sw_run wevs (sw_init wl))"
    by (simp add: sched_ok_sw_run sched_ok_sw_init)
  have r: "triggerSet im = Some ms \<longrightarrow>
        ms = inputMs im \<and> remainingTime (cd_clear (onSet_callback ms c)) = int (inputMs im)"
    by (auto simp: triggerSet_def onSet_callback_def set_then_clear split: if_splits)
  from cd_clear_result [OF c] sw_clear_result [OF w] r show ?thesis
    by blast
qed

theorem clear_restores_baseline_witness:
  "triggerSet \<lparr>inputMs = 5000, shown = [0, 5000]\<rparr> = Some 5000
   \<and> remainingTime (cd_clear (onSet_callback 5000 (cd_init Start_label))) = 5000
   \<and> remainingTime (cd_clear (cd_run [CdSetInitial 5000, CdStart 0, CdTick 10]
        (cd_init Start_label))) = 5000
   \<and> elapsedTime (sw_clear (sw_run [SwStart 0, SwTick 10] (sw_init Start_label))) = 0"
proof -
  have i: "initialTimeMs (cd_run [CdSetInitial 5000, CdStart 0, CdTick 10]
             (cd_init Start_label)) = 5000"
    by (simp add: cd_run_def cd_init_def setInitialTime_def cd_start_def cd_tick_def
        fire_all_def cd_callback_unfold engine_defs)
  show ?thesis
    using clear_restores_baseline [of "[CdSetInitial 5000, CdStart 0, CdTick 10]" Start_label
        "[SwStart 0, SwTick 10]" Start_label "\<lparr>inputMs = 5000, shown = [0, 5000]\<rparr>" 5000
        "cd_init Start_label"] i
    by (simp add: triggerSet_def)
qed

text \<open>
  C8. \<open>start()\<close> is idempotent on both engines: a second \<open>start()\<close> right after a first one
  changes nothing, whatever the clock reads, so it registers no second interval; and in
  every state either engine can reach, at most one interval handle is registered.
\<close>

theorem start_idempotent_one_handle:
  "sw_start t2 (sw_start t1 w) = sw_start t1 w
   \<and> cd_start t2 (cd_start t1 c) = cd_start t1 c
   \<and> length (intervals (sw_run wevs (sw_init wl))) \<le> 1
   \<and> length (intervals (cd_run cevs (cd_init cl))) \<le> 1"
  by (simp only: sw_start_twice cd_start_twice sched_ok_length sched_ok_sw_run sched_ok_cd_run
      sched_ok_sw_init sched_ok_cd_init simp_thms)

text \<open>
  C9. Neither engine ever hands a negative value to the display. For the stopwatch, along
  any trace whose clock readings never go back, every value shown is non-negative: the
  anchor is never later than the clock. For the countdown, along any trace whose
  \<open>setInitialTime\<close> arguments are non-negative durations, every value shown is non-negative:
  a tick shows the positive remainder or, clamped, 0.
\<close>

theorem shown_values_nonneg:
  "(monotone_clock t0 wevs \<longrightarrow> (\<forall>v\<in>set (display (sw_run wevs (sw_init wl))). 0 \<le> v))
   \<and> (durations_nonneg cevs \<longrightarrow> (\<forall>v\<in>set (display (cd_run cevs (cd_init cl))). 0 \<le> v))"
proof -
  have "list_all (\<lambda>v. 0 \<le> v) (display (sw_run wevs (sw_init wl)))" if "monotone_clock t0 wevs"
    using sw_nonneg_init that by (rule sw_nonneg_run)
  moreover have "list_all (\<lambda>v. 0 \<le> v) (display (cd_run cevs (cd_init cl)))"
    if "durations_nonneg cevs"
    using cd_nonneg_run [OF cd_nonneg_init that] by (simp add: cd_nonneg_def)
  ultimately show ?thesis by (simp add: list_all_iff)
qed

theorem shown_values_nonneg_witness:
  "monotone_clock 0 [SwStart 0, SwTick 10, SwPause 12, SwStart 20, SwTick 25, SwClear 30]
   \<and> durations_nonneg [CdSetInitial 30, CdStart 0, CdTick 10, CdTick 40, CdClear]
   \<and> list_all (\<lambda>v. 0 \<le> v)
        (display (sw_run [SwStart 0, SwTick 10, SwPause 12, SwStart 20, SwTick 25, SwClear 30]
           (sw_init Start_label)))
   \<and> list_all (\<lambda>v. 0 \<le> v)
        (display (cd_run [CdSetInitial 30, CdStart 0, CdTick 10, CdTick 40, CdClear]
           (cd_init Start_label)))"
proof -
  have h: "monotone_clock 0 [SwStart 0, SwTick 10, SwPause 12, SwStart 20, SwTick 25, SwClear 30]"
    "durations_nonneg [CdSetInitial 30, CdStart 0, CdTick 10, CdTick 40, CdClear]"
    by simp_all
  show ?thesis
    using shown_values_nonneg [of 0
        "[SwStart 0, SwTick 10, SwPause 12, SwStart 20, SwTick 25, SwClear 30]" Start_label
        "[CdSetInitial 30, CdStart 0, CdTick 10, CdTick 40, CdClear]" Start_label] h
    by (simp only: list_all_iff simp_thms)
qed

text \<open>
  C10. Whatever the buffer holds, a digit press never takes the clamping branch of
  \<open>handleNumberInput\<close> and never parses a non-number; a press that is accepted leaves a
  whole number of seconds of at most 86399000 ms, which is below \<open>MAX_COUNTDOWN_MS\<close>, and any
  other press leaves the buffer as it was. So after every sequence of presses and clears the
  buffer holds a multiple of 1000 of at most 86399000.
\<close>

theorem clamp_unreachable:
  "fst (handleNumberInput d im) \<noteq> Clamped
   \<and> fst (handleNumberInput d im) \<noteq> Not_a_number
   \<and> (fst (handleNumberInput d im) = Updated \<longrightarrow>
        inputMs (snd (handleNumberInput d im)) mod 1000 = 0
        \<and> inputMs (snd (handleNumberInput d im)) \<le> 86399000)
   \<and> (fst (handleNumberInput d im) \<noteq> Updated \<longrightarrow> snd (handleNumberInput d im) = im)
   \<and> 86399000 < MAX_COUNTDOWN_MS
   \<and> inputMs (im_run evs im_init) mod 1000 = 0
   \<and> inputMs (im_run evs im_init) \<le> 86399000"
  using handleNumberInput_cases [of d im] im_run_bound [of im_init evs]
  by (simp add: MAX_COUNTDOWN_MS_value im_init_def split: if_splits)

theorem clamp_unreachable_witness:
  "fst (handleNumberInput ''3'' \<lparr>inputMs = 12000, shown = []\<rparr>) = Updated
   \<and> inputMs (snd (handleNumberInput ''3'' \<lparr>inputMs = 12000, shown = []\<rparr>)) \<le> 86399000
   \<and> fst (handleNumberInput ''9'' \<lparr>inputMs = 45296000, shown = []\<rparr>) \<noteq> Updated
   \<and> snd (handleNumberInput ''9'' \<lparr>inputMs = 45296000, shown = []\<rparr>)
       = \<lparr>inputMs = 45296000, shown = []\<rparr>"
proof -
  have u: "fst (handleNumberInput ''3'' \<lparr>inputMs = 12000, shown = []\<rparr>) = Updated"
    by (simp add: press_3)
  have r: "fst (handleNumberInput ''9'' \<lparr>inputMs = 45296000, shown = []\<rparr>) \<noteq> Updated"
    by (simp add: press_9)
  show ?thesis
    using clamp_unreachable [of "''3''" "\<lparr>inputMs = 12000, shown = []\<rparr>" "[]"]
      clamp_unreachable [of "''9''" "\<lparr>inputMs = 45296000, shown = []\<rparr>" "[]"] u r
    by simp
qed

end
